theory Spec2Isabelle
  imports Main "HOL-Library.Sublist"
begin

section \<open>Module constants of remedy.py\<close>

definition ENTRY_PATH :: string where
  "ENTRY_PATH = ''/arsys/v1.0/entry/''"

definition SCHEMA_PATH :: string where
  "SCHEMA_PATH = ''/arsys/v1.0/fields/''"

definition LOGIN_PATH :: string where
  "LOGIN_PATH = ''/jwt/login''"

definition LOGOUT_PATH :: string where
  "LOGOUT_PATH = ''/jwt/logout''"

definition REST_TIMEOUT :: nat where
  "REST_TIMEOUT = 60"

section \<open>The HTTP library as the module sees it\<close>

text \<open>
  The module talks to the server through \<^verbatim>\<open>requests.post\<close>, \<^verbatim>\<open>requests.put\<close> and
  \<^verbatim>\<open>requests.get\<close>. A call is described by the keyword arguments the module passes;
  an argument the module leaves out is \<open>None\<close>.
\<close>

datatype http_method = GET | POST | PUT

text \<open>
  Structured data as it travels in a JSON body. The client never looks inside it.
  Numbers are kept as integers here.
\<close>

datatype json =
    JNull
  | JBool bool
  | JNum int
  | JStr string
  | JArr "json list"
  | JObj "(string \<times> json) list"

text \<open>A query-parameter value: the module stores strings and the integer limit.\<close>

datatype pval = PStr string | PInt int

record request =
  rq_method :: http_method
  rq_url :: string
  rq_data :: "(string \<times> string) list option"
  rq_json :: "json option"
  rq_headers :: "(string \<times> string) list option"
  rq_params :: "(string \<times> pval) list option"
  rq_timeout :: nat

text \<open>
  The response object: the attributes the module reads. \<open>resp_headers\<close> is the lookup
  \<^verbatim>\<open>response.headers.get\<close>; \<open>decoded\<close> is the structured value the body text stands for,
  when it is a JSON document.
\<close>

record response =
  status_code :: int
  reason :: string
  resp_text :: string
  resp_headers :: "string \<Rightarrow> string option"
  decoded :: "json option"

text \<open>What the HTTP library raises when no response arrives.\<close>

datatype transport_error = Timeout | ConnectionRefused | DNSFailure

text \<open>
  The exceptions a call of the module can end with: the three classes the module
  defines, what the HTTP library raises by itself, and any other exception raised
  by the caller's own code inside a \<^verbatim>\<open>with\<close> block.
\<close>

datatype exn =
    RemedyException string
  | RemedyLoginException string
  | RemedyLogoutException string
  | RequestException transport_error
  | JSONDecodeError
  | CallerError string

text \<open>
  \<^verbatim>\<open>isinstance(e, RemedyException)\<close>: the login and logout exceptions are subclasses
  of \<^verbatim>\<open>RemedyException\<close>.
\<close>

fun is_RemedyException :: "exn \<Rightarrow> bool" where
  "is_RemedyException (RemedyException m) = True"
| "is_RemedyException (RemedyLoginException m) = True"
| "is_RemedyException (RemedyLogoutException m) = True"
| "is_RemedyException (RequestException t) = False"
| "is_RemedyException JSONDecodeError = False"
| "is_RemedyException (CallerError m) = False"

text \<open>
  \<^verbatim>\<open>response.ok\<close> of the HTTP library: false exactly when \<^verbatim>\<open>raise_for_status\<close> would
  raise, that is for a status code from 400 to 599.
\<close>

definition ok :: "response \<Rightarrow> bool" where
  "ok r = (\<not> (400 \<le> status_code r \<and> status_code r < 600))"

text \<open>
  \<^verbatim>\<open>response.json()\<close>: decodes the body text; an empty text is not a JSON document,
  and neither is a text that stands for no structured value.
\<close>

definition resp_json :: "response \<Rightarrow> exn + json" where
  "resp_json r =
     (if resp_text r = [] then Inl JSONDecodeError
      else case decoded r of None \<Rightarrow> Inl JSONDecodeError | Some j \<Rightarrow> Inr j)"

section \<open>The world outside the session object\<close>

text \<open>
  Every request the process has issued is recorded in \<open>sent\<close>, every record handed to
  the root logger in \<open>logged\<close>. The server answers a request knowing the requests
  before it; it either answers or the transport fails.
\<close>

datatype level = DEBUG | INFO | ERROR

datatype logmsg =
    Str string
  | JsonDump "(string \<times> json) list"
  | HeadersObj "(string \<times> string) list"
  | ParamsObj "(string \<times> pval) list option"
  | FieldValues "(string \<times> json) list"

record world =
  sent :: "request list"
  logged :: "(level \<times> logmsg) list"

type_synonym server = "request list \<Rightarrow> request \<Rightarrow> transport_error + response"

definition log :: "level \<Rightarrow> logmsg \<Rightarrow> world \<Rightarrow> world" where
  "log l m w = w\<lparr>logged := logged w @ [(l, m)]\<rparr>"

definition send :: "server \<Rightarrow> request \<Rightarrow> world \<Rightarrow> (transport_error + response) \<times> world" where
  "send srv rq w = (srv (sent w) rq, w\<lparr>sent := sent w @ [rq]\<rparr>)"

section \<open>Python helpers\<close>

text \<open>Truth value of an optional string, an optional integer and an optional list.\<close>

definition truthy_str :: "string option \<Rightarrow> bool" where
  "truthy_str t = (case t of None \<Rightarrow> False | Some s \<Rightarrow> s \<noteq> [])"

definition truthy_int :: "int option \<Rightarrow> bool" where
  "truthy_int t = (case t of None \<Rightarrow> False | Some i \<Rightarrow> i \<noteq> 0)"

definition truthy_list :: "'a list option \<Rightarrow> bool" where
  "truthy_list t = (case t of None \<Rightarrow> False | Some xs \<Rightarrow> xs \<noteq> [])"

text \<open>\<^verbatim>\<open>sep.join(xs)\<close>\<close>

fun join :: "string \<Rightarrow> string list \<Rightarrow> string" where
  "join sep [] = []"
| "join sep [x] = x"
| "join sep (x # y # ys) = x @ sep @ join sep (y # ys)"

text \<open>\<^verbatim>\<open>str(n)\<close> for an integer, in decimal.\<close>

definition digit :: "nat \<Rightarrow> char" where
  "digit d = ''0123456789'' ! d"

fun str_nat :: "nat \<Rightarrow> string" where
  "str_nat n = (if n < 10 then [digit n] else str_nat (n div 10) @ [digit (n mod 10)])"

declare str_nat.simps [simp del]

definition str_int :: "int \<Rightarrow> string" where
  "str_int i = (if i < 0 then CHR ''-'' # str_nat (nat (- i)) else str_nat (nat i))"

text \<open>\<^verbatim>\<open>f"values({','.join(fields)})"\<close>\<close>

definition values_of :: "string list \<Rightarrow> string" where
  "values_of flds = ''values('' @ join '','' flds @ '')''"

section \<open>class RemedySession\<close>

record session =
  remedy_base_url :: string
  auth_token :: "string option"

type_synonym 'a outcome = "(exn + 'a) \<times> session \<times> world"

text \<open>
  \<^verbatim>\<open>__init__\<close>: the constructor either raises, and then the caller gets no object,
  or returns the session with its token.
\<close>

definition login_request :: "string \<Rightarrow> string \<Rightarrow> string \<Rightarrow> request" where
  "login_request api_url username password =
     \<lparr>rq_method = POST, rq_url = api_url @ LOGIN_PATH,
      rq_data = Some [(''username'', username), (''password'', password)],
      rq_json = None, rq_headers = None, rq_params = None,
      rq_timeout = REST_TIMEOUT\<rparr>"

definition RemedySession_init ::
  "server \<Rightarrow> string \<Rightarrow> string \<Rightarrow> string \<Rightarrow> world \<Rightarrow> (exn + session) \<times> world" where
  "RemedySession_init srv api_url username password w0 =
     (let w1 = log INFO (Str (''Logging in to Helix ITSM as '' @ username)) w0;
          w2 = log INFO (Str (''============================''
                               @ replicate (length username) CHR ''='')) w1;
          w3 = log DEBUG (Str (api_url @ LOGIN_PATH)) w2;
          (res, w4) = send srv (login_request api_url username password) w3
      in case res of
           Inl t \<Rightarrow> (Inl (RequestException t), w4)
         | Inr response \<Rightarrow>
             if \<not> ok response then
               (Inl (RemedyLoginException
                      (''Failed to login to Remedy server: HTTP ''
                       @ str_int (status_code response)
                       @ '' ('' @ reason response @ '')'')), w4)
             else
               (Inr \<lparr>remedy_base_url = api_url,
                     auth_token = Some (''AR-JWT '' @ resp_text response)\<rparr>, w4))"

text \<open>\<^verbatim>\<open>logout\<close>\<close>

definition logout_request :: "session \<Rightarrow> request" where
  "logout_request self =
     \<lparr>rq_method = POST, rq_url = remedy_base_url self @ LOGOUT_PATH,
      rq_data = None, rq_json = None,
      rq_headers = Some [(''Authorization'', the (auth_token self))],
      rq_params = None, rq_timeout = REST_TIMEOUT\<rparr>"

definition logout :: "server \<Rightarrow> session \<Rightarrow> world \<Rightarrow> unit outcome" where
  "logout srv self w0 =
     (if \<not> truthy_str (auth_token self) then
        (Inl (RemedyLogoutException ''No active login session; cannot logout.''), self, w0)
      else
        let (res, w1) = send srv (logout_request self) w0
        in case res of
             Inl t \<Rightarrow> (Inl (RequestException t), self, w1)
           | Inr response \<Rightarrow>
               let w2 = log INFO (Str ''================================='') w1
               in if \<not> ok response then
                    (Inl (RemedyLogoutException
                           (''Failed to log out of Helix ITSM server: (''
                            @ str_int (status_code response) @ '') ''
                            @ resp_text response @ [CHR 0x22])), self, w2)
                  else
                    (Inr (), self\<lparr>auth_token := None\<rparr>,
                     log INFO (Str ''Successful logout from Helix ITSM'') w2))"

text \<open>\<^verbatim>\<open>create_entry\<close>\<close>

definition create_params :: "string list option \<Rightarrow> (string \<times> pval) list option" where
  "create_params flds =
     (if truthy_list flds then Some [(''fields'', PStr (values_of (the flds)))] else None)"

definition create_request ::
  "session \<Rightarrow> string \<Rightarrow> (string \<times> json) list \<Rightarrow> string list option \<Rightarrow> request" where
  "create_request self form field_values flds =
     \<lparr>rq_method = POST, rq_url = remedy_base_url self @ ENTRY_PATH @ form,
      rq_data = None, rq_json = Some (JObj field_values),
      rq_headers = Some [(''Authorization'', the (auth_token self))],
      rq_params = create_params flds, rq_timeout = REST_TIMEOUT\<rparr>"

definition create_entry ::
  "server \<Rightarrow> string \<Rightarrow> (string \<times> json) list \<Rightarrow> string list option
     \<Rightarrow> session \<Rightarrow> world \<Rightarrow> (string \<times> json) outcome" where
  "create_entry srv form field_values flds self w0 =
     (if \<not> truthy_str (auth_token self) then
        (Inl (RemedyException ''Unable to create entry without a valid login session''),
         self, w0)
      else
        let rq = create_request self form field_values flds;
            w1 = log DEBUG (JsonDump field_values) w0;
            w2 = log DEBUG (Str (rq_url rq)) w1;
            w3 = log DEBUG (HeadersObj (the (rq_headers rq))) w2;
            w4 = log DEBUG (ParamsObj (rq_params rq)) w3;
            (res, w5) = send srv rq w4
        in case res of
             Inl t \<Rightarrow> (Inl (RequestException t), self, w5)
           | Inr response \<Rightarrow>
               if \<not> ok response then
                 (Inl (RemedyException (''Failed to create entry: '' @ resp_text response)),
                  self, w5)
               else
                 let location = (case resp_headers response ''Location'' of
                                   None \<Rightarrow> [] | Some l \<Rightarrow> l)
                 in case resp_json response of
                      Inl e \<Rightarrow> (Inl e, self, w5)
                    | Inr body \<Rightarrow> (Inr (location, body), self, w5))"

text \<open>\<^verbatim>\<open>modify_entry\<close>\<close>

definition modify_request ::
  "session \<Rightarrow> string \<Rightarrow> (string \<times> json) list \<Rightarrow> string \<Rightarrow> request" where
  "modify_request self form field_values entry_id =
     \<lparr>rq_method = PUT,
      rq_url = remedy_base_url self @ ENTRY_PATH @ form @ ''/'' @ entry_id,
      rq_data = None, rq_json = Some (JObj field_values),
      rq_headers = Some [(''Authorization'', the (auth_token self))],
      rq_params = None, rq_timeout = REST_TIMEOUT\<rparr>"

definition modify_entry ::
  "server \<Rightarrow> string \<Rightarrow> (string \<times> json) list \<Rightarrow> string
     \<Rightarrow> session \<Rightarrow> world \<Rightarrow> unit outcome" where
  "modify_entry srv form field_values entry_id self w0 =
     (if \<not> truthy_str (auth_token self) then
        (Inl (RemedyException ''Unable to modify entry without a valid login session''),
         self, w0)
      else
        let rq = modify_request self form field_values entry_id;
            w1 = log DEBUG (Str (''Going to modify incident ref: '' @ entry_id)) w0;
            w2 = log DEBUG (FieldValues field_values) w1;
            w3 = log DEBUG (Str (''URL: '' @ rq_url rq)) w2;
            (res, w4) = send srv rq w3
        in case res of
             Inl t \<Rightarrow> (Inl (RequestException t), self, w4)
           | Inr response \<Rightarrow>
               if ok response then
                 (Inr (), self, log DEBUG (Str (''Incident modified: '' @ rq_url rq)) w4)
               else
                 (Inl (RemedyException ''Failed to modify the incident''), self,
                  log ERROR (Str (''Error modifying incident: '' @ resp_text response)) w4))"

text \<open>\<^verbatim>\<open>query_form\<close>: the parameter dictionary is filled in the order q, limit, fields.\<close>

definition query_params ::
  "string option \<Rightarrow> string list option \<Rightarrow> int option \<Rightarrow> (string \<times> pval) list" where
  "query_params query flds limit =
     (if truthy_str query then [(''q'', PStr (the query))] else [])
     @ (if truthy_int limit then [(''limit'', PInt (the limit))] else [])
     @ (if truthy_list flds then [(''fields'', PStr (values_of (the flds)))] else [])"

definition query_request ::
  "session \<Rightarrow> string \<Rightarrow> string option \<Rightarrow> string list option \<Rightarrow> int option \<Rightarrow> request" where
  "query_request self form query flds limit =
     \<lparr>rq_method = GET, rq_url = remedy_base_url self @ ENTRY_PATH @ form,
      rq_data = None, rq_json = None,
      rq_headers = Some [(''Authorization'', the (auth_token self))],
      rq_params = Some (query_params query flds limit), rq_timeout = REST_TIMEOUT\<rparr>"

definition query_form ::
  "server \<Rightarrow> string \<Rightarrow> string option \<Rightarrow> string list option \<Rightarrow> int option
     \<Rightarrow> session \<Rightarrow> world \<Rightarrow> json outcome" where
  "query_form srv form query flds limit self w0 =
     (if \<not> truthy_str (auth_token self) then
        (Inl (RemedyException ''Unable to get entry without a valid login session''),
         self, w0)
      else
        let rq = query_request self form query flds limit;
            w1 = log DEBUG (Str (''Target URL: '' @ rq_url rq)) w0;
            (res, w2) = send srv rq w1
        in case res of
             Inl t \<Rightarrow> (Inl (RequestException t), self, w2)
           | Inr response \<Rightarrow>
               if ok response then
                 (case resp_json response of
                    Inl e \<Rightarrow> (Inl e, self, w2)
                  | Inr body \<Rightarrow> (Inr body, self, w2))
               else
                 (Inl (RemedyException (''Error getting entry: '' @ resp_text response)),
                  self, w2))"

text \<open>\<^verbatim>\<open>get_schema\<close>\<close>

definition schema_request :: "session \<Rightarrow> string \<Rightarrow> request" where
  "schema_request self form =
     \<lparr>rq_method = GET, rq_url = remedy_base_url self @ SCHEMA_PATH @ form,
      rq_data = None, rq_json = None,
      rq_headers = Some [(''Authorization'', the (auth_token self))],
      rq_params = Some [(''field_criteria'',
                          PStr ''NAME, DATATYPE, LIMIT, DISPLAY_INSTANCE, OPTIONS''),
                        (''field_type'', PStr ''DATA, ATTACH, ATTACHPOOL'')],
      rq_timeout = REST_TIMEOUT\<rparr>"

definition get_schema :: "server \<Rightarrow> string \<Rightarrow> session \<Rightarrow> world \<Rightarrow> json outcome" where
  "get_schema srv form self w0 =
     (if \<not> truthy_str (auth_token self) then
        (Inl (RemedyException ''Unable to get schema without a valid login session''),
         self, w0)
      else
        let rq = schema_request self form;
            w1 = log DEBUG (Str (''Target URL: '' @ rq_url rq)) w0;
            (res, w2) = send srv rq w1
        in case res of
             Inl t \<Rightarrow> (Inl (RequestException t), self, w2)
           | Inr response \<Rightarrow>
               if ok response then
                 (case resp_json response of
                    Inl e \<Rightarrow> (Inl e, self, w2)
                  | Inr body \<Rightarrow> (Inr body, self, w2))
               else
                 (Inl (RemedyException (''Error getting form schema: '' @ resp_text response)),
                  self, w2))"

text \<open>
  \<^verbatim>\<open>__exit__\<close>: \<open>exctype\<close> is the exception in flight, if any. When \<^verbatim>\<open>self.logout()\<close>
  raises, the statements after it are not reached. The returned \<^verbatim>\<open>None\<close> is the unit value.
\<close>

definition exit_session :: "server \<Rightarrow> exn option \<Rightarrow> session \<Rightarrow> world \<Rightarrow> unit outcome" where
  "exit_session srv exctype self w0 =
     (let (r1, self1, w1) =
            (if truthy_str (auth_token self) then logout srv self w0 else (Inr (), self, w0))
      in case r1 of
           Inl e \<Rightarrow> (Inl e, self1, w1)
         | Inr u \<Rightarrow>
             let w2 = (if exctype \<noteq> None
                       then log INFO (Str (''Exception type was specified! <class ''
                                           @ [CHR 0x27] @ ''type'' @ [CHR 0x27] @ ''>'')) w1
                       else w1)
             in (Inr (), self1, w2))"

text \<open>
  The statement \<^verbatim>\<open>with RemedySession(url, user, pw) as s: block\<close>, by the rules of the
  language: the constructor runs first (\<^verbatim>\<open>__enter__\<close> returns the object itself); the
  block runs; \<^verbatim>\<open>__exit__\<close> runs with the block's exception or with none. An exception
  raised by \<^verbatim>\<open>__exit__\<close> leaves the statement in place of the block's. Otherwise the
  block's exception is raised again, since the returned \<^verbatim>\<open>None\<close> is not true.
\<close>

definition with_session ::
  "server \<Rightarrow> string \<Rightarrow> string \<Rightarrow> string \<Rightarrow> (session \<Rightarrow> world \<Rightarrow> 'a outcome)
     \<Rightarrow> world \<Rightarrow> (exn + 'a) \<times> world" where
  "with_session srv api_url username password block w0 =
     (case RemedySession_init srv api_url username password w0 of
        (Inl e, w1) \<Rightarrow> (Inl e, w1)
      | (Inr s, w1) \<Rightarrow>
          (case block s w1 of
             (Inl e, s2, w2) \<Rightarrow>
               (case exit_session srv (Some e) s2 w2 of
                  (Inl e2, s3, w3) \<Rightarrow> (Inl e2, w3)
                | (Inr u, s3, w3) \<Rightarrow> (Inl e, w3))
           | (Inr v, s2, w2) \<Rightarrow>
               (case exit_session srv None s2 w2 of
                  (Inl e2, s3, w3) \<Rightarrow> (Inl e2, w3)
                | (Inr u, s3, w3) \<Rightarrow> (Inr v, w3))))"

section \<open>Servers and callers\<close>

text \<open>
  Servers to run the module against: one that gives the same response to every request,
  one whose transport always fails, and one that plays a script, the n-th outcome for
  the n-th request of the process (the connection is refused once the script is over).
\<close>

definition answering :: "response \<Rightarrow> server" where
  "answering r h rq = Inr r"

definition failing :: "transport_error \<Rightarrow> server" where
  "failing t h rq = Inl t"

definition scripted :: "(transport_error + response) list \<Rightarrow> server" where
  "scripted outs h rq = (if length h < length outs then outs ! length h else Inl ConnectionRefused)"

text \<open>
  The header lookup of a response that came with the given header lines, as the HTTP
  library does it: header names are compared without regard to case, and the values of
  a header that comes several times are joined with a comma and a space.
\<close>

definition lower_char :: "char \<Rightarrow> char" where
  "lower_char c =
     (case map_of (zip ''ABCDEFGHIJKLMNOPQRSTUVWXYZ'' ''abcdefghijklmnopqrstuvwxyz'') c of
        None \<Rightarrow> c | Some d \<Rightarrow> d)"

definition lower :: "string \<Rightarrow> string" where
  "lower s = map lower_char s"

definition headers_of :: "(string \<times> string) list \<Rightarrow> string \<Rightarrow> string option" where
  "headers_of hs name =
     (let vs = map snd (filter (\<lambda>kv. lower (fst kv) = lower name) hs)
      in if vs = [] then None else Some (join '', '' vs))"

text \<open>
  A call that ended with an exception of the given kind; a call that returned is none.
\<close>

definition fails_with :: "(exn \<Rightarrow> bool) \<Rightarrow> exn + 'a \<Rightarrow> bool" where
  "fails_with kind res = (case res of Inl e \<Rightarrow> kind e | Inr v \<Rightarrow> False)"

text \<open>The value a request carries for a query parameter, if it carries one.\<close>

definition param :: "request \<Rightarrow> string \<Rightarrow> pval option" where
  "param rq name = (case rq_params rq of None \<Rightarrow> None | Some ps \<Rightarrow> map_of ps name)"

text \<open>
  A caller that makes method calls on one instance, one after the other, and goes on
  after an exception.
\<close>

datatype call =
    CreateEntry string "(string \<times> json) list" "string list option"
  | ModifyEntry string "(string \<times> json) list" string
  | QueryForm string "string option" "string list option" "int option"
  | GetSchema string
  | Logout

datatype ret = Created string json | Body json | Nothing

fun perform :: "server \<Rightarrow> call \<Rightarrow> session \<Rightarrow> world \<Rightarrow> ret outcome" where
  "perform srv (CreateEntry form fv flds) s w =
     (case create_entry srv form fv flds s w of
        (Inl e, s', w') \<Rightarrow> (Inl e, s', w')
      | (Inr (l, b), s', w') \<Rightarrow> (Inr (Created l b), s', w'))"
| "perform srv (ModifyEntry form fv entry_id) s w =
     (case modify_entry srv form fv entry_id s w of
        (Inl e, s', w') \<Rightarrow> (Inl e, s', w')
      | (Inr u, s', w') \<Rightarrow> (Inr Nothing, s', w'))"
| "perform srv (QueryForm form query flds limit) s w =
     (case query_form srv form query flds limit s w of
        (Inl e, s', w') \<Rightarrow> (Inl e, s', w')
      | (Inr b, s', w') \<Rightarrow> (Inr (Body b), s', w'))"
| "perform srv (GetSchema form) s w =
     (case get_schema srv form s w of
        (Inl e, s', w') \<Rightarrow> (Inl e, s', w')
      | (Inr b, s', w') \<Rightarrow> (Inr (Body b), s', w'))"
| "perform srv Logout s w =
     (case logout srv s w of
        (Inl e, s', w') \<Rightarrow> (Inl e, s', w')
      | (Inr u, s', w') \<Rightarrow> (Inr Nothing, s', w'))"

fun perform_all ::
  "server \<Rightarrow> call list \<Rightarrow> session \<Rightarrow> world \<Rightarrow> (exn + ret) list \<times> session \<times> world" where
  "perform_all srv [] s w = ([], s, w)"
| "perform_all srv (c # cs) s w =
     (case perform srv c s w of
        (r, s', w') \<Rightarrow>
          (case perform_all srv cs s' w' of (rs, s'', w'') \<Rightarrow> (r # rs, s'', w'')))"

text \<open>What each method raises when the session holds no token.\<close>

fun no_session_error :: "call \<Rightarrow> exn" where
  "no_session_error (CreateEntry form fv flds) =
     RemedyException ''Unable to create entry without a valid login session''"
| "no_session_error (ModifyEntry form fv entry_id) =
     RemedyException ''Unable to modify entry without a valid login session''"
| "no_session_error (QueryForm form query flds limit) =
     RemedyException ''Unable to get entry without a valid login session''"
| "no_session_error (GetSchema form) =
     RemedyException ''Unable to get schema without a valid login session''"
| "no_session_error Logout =
     RemedyLogoutException ''No active login session; cannot logout.''"

text \<open>A \<^verbatim>\<open>with\<close> block that raises at once, and one that does nothing.\<close>

definition raising_block :: "string \<Rightarrow> session \<Rightarrow> world \<Rightarrow> unit outcome" where
  "raising_block m s w = (Inl (CallerError m), s, w)"

definition empty_block :: "session \<Rightarrow> world \<Rightarrow> unit outcome" where
  "empty_block s w = (Inr (), s, w)"

text \<open>A process that has sent and logged nothing yet.\<close>

definition fresh :: world where
  "fresh = \<lparr>sent = [], logged = []\<rparr>"

section \<open>Basic facts\<close>

lemma sent_log [simp]: "sent (log l m w) = sent w"
  by (simp add: log_def)

lemma logged_log [simp]: "logged (log l m w) = logged w @ [(l, m)]"
  by (simp add: log_def)

lemma send_fst [simp]: "fst (send srv rq w) = srv (sent w) rq"
  by (simp add: send_def)

lemma send_sent [simp]: "sent (snd (send srv rq w)) = sent w @ [rq]"
  by (simp add: send_def)

lemma send_logged [simp]: "logged (snd (send srv rq w)) = logged w"
  by (simp add: send_def)

section \<open>Helper facts about the methods\<close>

lemma perform_closed:
  assumes "\<not> truthy_str (auth_token s)"
  shows "perform srv c s w = (Inl (no_session_error c), s, w)"
  using assms
  by (cases c)
     (simp_all add: create_entry_def modify_entry_def query_form_def get_schema_def logout_def)

lemma perform_all_closed:
  assumes "\<not> truthy_str (auth_token s)"
  shows "perform_all srv cs s w = (map (\<lambda>c. Inl (no_session_error c)) cs, s, w)"
  using assms
  by (induction cs) (simp_all add: perform_closed)

lemma logout_frame:
  "fst (snd (logout srv s w)) =
     (case fst (logout srv s w) of Inl e \<Rightarrow> s | Inr u \<Rightarrow> s\<lparr>auth_token := None\<rparr>)"
  by (simp add: logout_def Let_def split_def split: sum.splits)

lemma logout_keeps_token_iff:
  "truthy_str (auth_token (fst (snd (logout srv s w)))) =
     (truthy_str (auth_token s) \<and> fst (logout srv s w) \<noteq> Inr ())"
  by (auto simp add: logout_def Let_def split_def truthy_str_def split: sum.splits)

lemma data_ops_frame:
  "fst (snd (create_entry srv form fv flds s w)) = s"
  "fst (snd (modify_entry srv form fv entry_id s w)) = s"
  "fst (snd (query_form srv form query flds limit s w)) = s"
  "fst (snd (get_schema srv form s w)) = s"
  by (simp_all add: create_entry_def modify_entry_def query_form_def get_schema_def
        Let_def split_def split: sum.splits)

lemma exit_session_held:
  assumes "truthy_str (auth_token s)"
  shows "fst (exit_session srv exc s w) =
           (case fst (logout srv s w) of Inl e2 \<Rightarrow> Inl e2 | Inr u \<Rightarrow> Inr ())
       \<and> sent (snd (snd (exit_session srv exc s w))) = sent w @ [logout_request s]"
  using assms
  by (simp add: exit_session_def logout_def send_def Let_def split: sum.splits)

lemma query_form_sends:
  assumes "truthy_str (auth_token s)"
  shows "sent (snd (snd (query_form srv form query flds limit s w))) =
           sent w @ [query_request s form query flds limit]"
  using assms
  by (simp add: query_form_def send_def Let_def split: sum.splits)

lemma create_entry_sends:
  assumes "truthy_str (auth_token s)"
  shows "sent (snd (snd (create_entry srv form fv flds s w))) =
           sent w @ [create_request s form fv flds]"
  using assms
  by (simp add: create_entry_def send_def Let_def split: sum.splits)

lemma logout_sends:
  assumes "truthy_str (auth_token s)"
  shows "sent (snd (snd (logout srv s w))) = sent w @ [logout_request s]"
  using assms
  by (simp add: logout_def send_def Let_def split: sum.splits)

lemma logout_ok_response:
  assumes "truthy_str (auth_token s)"
      and "srv (sent w) (logout_request s) = Inr r" and "ok r"
  shows "fst (logout srv s w) = Inr ()"
    and "fst (snd (logout srv s w)) = s\<lparr>auth_token := None\<rparr>"
  using assms
  by (simp_all add: logout_def send_def Let_def)

lemma logout_error_response:
  assumes "truthy_str (auth_token s)"
      and "srv (sent w) (logout_request s) = Inr r" and "\<not> ok r"
  shows "fst (logout srv s w) =
           Inl (RemedyLogoutException
                  (''Failed to log out of Helix ITSM server: ('' @ str_int (status_code r)
                   @ '') '' @ resp_text r @ [CHR 0x22]))"
    and "fst (snd (logout srv s w)) = s"
  using assms
  by (simp_all add: logout_def send_def Let_def)

lemma login_error_response:
  assumes "srv (sent w) (login_request api_url username password) = Inr r" and "\<not> ok r"
  shows "fst (RemedySession_init srv api_url username password w) =
           Inl (RemedyLoginException
                  (''Failed to login to Remedy server: HTTP '' @ str_int (status_code r)
                   @ '' ('' @ reason r @ '')''))"
  using assms
  by (simp add: RemedySession_init_def send_def Let_def)

lemma create_entry_error_response:
  assumes "truthy_str (auth_token s)"
      and "srv (sent w) (create_request s form fv flds) = Inr r" and "\<not> ok r"
  shows "fst (create_entry srv form fv flds s w) =
           Inl (RemedyException (''Failed to create entry: '' @ resp_text r))"
  using assms
  by (simp add: create_entry_def send_def Let_def)

lemma modify_entry_error_response:
  assumes "truthy_str (auth_token s)"
      and "srv (sent w) (modify_request s form fv entry_id) = Inr r" and "\<not> ok r"
  shows "fst (modify_entry srv form fv entry_id s w) =
           Inl (RemedyException ''Failed to modify the incident'')"
  using assms
  by (simp add: modify_entry_def send_def Let_def)

lemma query_form_error_response:
  assumes "truthy_str (auth_token s)"
      and "srv (sent w) (query_request s form query flds limit) = Inr r" and "\<not> ok r"
  shows "fst (query_form srv form query flds limit s w) =
           Inl (RemedyException (''Error getting entry: '' @ resp_text r))"
  using assms
  by (simp add: query_form_def send_def Let_def)

lemma get_schema_error_response:
  assumes "truthy_str (auth_token s)"
      and "srv (sent w) (schema_request s form) = Inr r" and "\<not> ok r"
  shows "fst (get_schema srv form s w) =
           Inl (RemedyException (''Error getting form schema: '' @ resp_text r))"
  using assms
  by (simp add: get_schema_def send_def Let_def)

lemma transport_failures:
  assumes "truthy_str (auth_token s)"
  shows "srv (sent w) (login_request api_url username password) = Inl t \<Longrightarrow>
           fst (RemedySession_init srv api_url username password w) = Inl (RequestException t)"
    and "srv (sent w) (logout_request s) = Inl t \<Longrightarrow>
           fst (logout srv s w) = Inl (RequestException t)"
    and "srv (sent w) (create_request s form fv flds) = Inl t \<Longrightarrow>
           fst (create_entry srv form fv flds s w) = Inl (RequestException t)"
    and "srv (sent w) (modify_request s form fv entry_id) = Inl t \<Longrightarrow>
           fst (modify_entry srv form fv entry_id s w) = Inl (RequestException t)"
    and "srv (sent w) (query_request s form query flds limit) = Inl t \<Longrightarrow>
           fst (query_form srv form query flds limit s w) = Inl (RequestException t)"
    and "srv (sent w) (schema_request s form) = Inl t \<Longrightarrow>
           fst (get_schema srv form s w) = Inl (RequestException t)"
  using assms
  by (simp_all add: RemedySession_init_def logout_def create_entry_def modify_entry_def
        query_form_def get_schema_def send_def Let_def)

section \<open>Data operations need a token\<close>

text \<open>
  C1. Each of create_entry, modify_entry, query_form and get_schema, called on a session
  that holds no token (the attribute is None or empty), fails with the module's
  RemedyException telling that there is no valid login session, sends no request
  (the world, and with it the list of requests issued, is the one before the call) and
  leaves the session as it was.
\<close>

theorem data_operations_need_token:
  assumes "\<not> truthy_str (auth_token self)"
  shows "create_entry srv form fv flds self w =
           (Inl (RemedyException ''Unable to create entry without a valid login session''),
            self, w)
       \<and> modify_entry srv form fv entry_id self w =
           (Inl (RemedyException ''Unable to modify entry without a valid login session''),
            self, w)
       \<and> query_form srv form query flds limit self w =
           (Inl (RemedyException ''Unable to get entry without a valid login session''),
            self, w)
       \<and> get_schema srv form self w =
           (Inl (RemedyException ''Unable to get schema without a valid login session''),
            self, w)"
  using assms
  by (simp add: create_entry_def modify_entry_def query_form_def get_schema_def)

theorem data_operations_need_token_witness:
  "create_entry (failing Timeout) ''F'' [] None
       \<lparr>remedy_base_url = ''u'', auth_token = None\<rparr> fresh =
     (Inl (RemedyException ''Unable to create entry without a valid login session''),
      \<lparr>remedy_base_url = ''u'', auth_token = None\<rparr>, fresh)
   \<and> get_schema (failing Timeout) ''F''
       \<lparr>remedy_base_url = ''u'', auth_token = None\<rparr> fresh =
     (Inl (RemedyException ''Unable to get schema without a valid login session''),
      \<lparr>remedy_base_url = ''u'', auth_token = None\<rparr>, fresh)"
proof -
  have h: "\<not> truthy_str (auth_token \<lparr>remedy_base_url = ''u'', auth_token = None\<rparr>)"
    by (simp add: truthy_str_def)
  show ?thesis
    using data_operations_need_token [OF h, of "failing Timeout" "''F''" "[]" None]
    by simp
qed

section \<open>Login\<close>

text \<open>
  The constructor tests \<^verbatim>\<open>response.ok\<close>, which is true for every status code outside
  400..599. A login answered with 304 is taken as a success: the session is returned
  and holds the token made from the body.
\<close>

theorem login_304_counterexample:
  "fst (RemedySession_init
          (answering \<lparr>status_code = 304, reason = ''Not Modified'', resp_text = ''tok123'',
                      resp_headers = headers_of [], decoded = None\<rparr>)
          ''http://h'' ''u'' ''p'' fresh)
     = Inr \<lparr>remedy_base_url = ''http://h'', auth_token = Some ''AR-JWT tok123''\<rparr>"
  by (simp add: RemedySession_init_def answering_def fresh_def send_def log_def ok_def Let_def)

text \<open>
  C2, amended. For every response to the login request with a status code from 400 to 599
  (the responses whose \<^verbatim>\<open>ok\<close> is false), the constructor fails with RemedyLoginException
  whose message carries the status code and the reason phrase; the result is the
  exception, so no session object and no token reach the caller. The one request issued
  is the login request.
\<close>

theorem login_fails_on_error_status:
  assumes "srv (sent w) (login_request api_url username password) = Inr r"
      and "400 \<le> status_code r" and "status_code r < 600"
  shows "fst (RemedySession_init srv api_url username password w) =
           Inl (RemedyLoginException
                  (''Failed to login to Remedy server: HTTP '' @ str_int (status_code r)
                   @ '' ('' @ reason r @ '')''))
       \<and> sent (snd (RemedySession_init srv api_url username password w)) =
           sent w @ [login_request api_url username password]"
  using assms
  by (simp add: RemedySession_init_def send_def ok_def Let_def)

theorem login_fails_on_error_status_witness:
  "fst (RemedySession_init
          (answering \<lparr>status_code = 401, reason = ''Unauthorized'', resp_text = ''no'',
                      resp_headers = headers_of [], decoded = None\<rparr>)
          ''http://h'' ''u'' ''p'' fresh)
     = Inl (RemedyLoginException ''Failed to login to Remedy server: HTTP 401 (Unauthorized)'')"
proof -
  let ?r = "\<lparr>status_code = 401, reason = ''Unauthorized'', resp_text = ''no'',
             resp_headers = headers_of [], decoded = None\<rparr>"
  have a: "answering ?r (sent fresh) (login_request ''http://h'' ''u'' ''p'') = Inr ?r"
    by (simp add: answering_def)
  have b: "400 \<le> status_code ?r" and c: "status_code ?r < 600" by simp_all
  have d: "str_int 401 = ''401''" by (simp add: str_int_def str_nat.simps digit_def)
  show ?thesis
    using login_fails_on_error_status
            [where srv = "answering ?r" and w = fresh and r = "?r"
               and api_url = "''http://h''" and username = "''u''" and password = "''p''"]
          a b c d
    by simp
qed

section \<open>After logout\<close>

text \<open>
  C3. When a session holds a token and the server answers the logout request with a
  response that is ok, logout returns normally and the session it leaves has the token
  None (the base URL is kept). From then on every method call on that session, against
  any server and in any world, fails without sending a request and leaves session and
  world as they are: the four data operations with the RemedyException of a missing
  login session, logout with the RemedyLogoutException "No active login session; cannot
  logout.". So does every sequence of calls: the session stays closed.
\<close>

theorem closed_is_terminal:
  assumes "truthy_str (auth_token s)"
      and "srv (sent w) (logout_request s) = Inr r" and "ok r"
  shows "fst (logout srv s w) = Inr ()
       \<and> fst (snd (logout srv s w)) = s\<lparr>auth_token := None\<rparr>
       \<and> perform srv2 c (fst (snd (logout srv s w))) w2 =
           (Inl (no_session_error c), s\<lparr>auth_token := None\<rparr>, w2)
       \<and> perform_all srv2 cs (fst (snd (logout srv s w))) w2 =
           (map (\<lambda>c. Inl (no_session_error c)) cs, s\<lparr>auth_token := None\<rparr>, w2)"
proof -
  have closed: "\<not> truthy_str (auth_token (s\<lparr>auth_token := None\<rparr>))"
    by (simp add: truthy_str_def)
  show ?thesis
    using logout_ok_response [where srv = srv and s = s and w = w and r = r] assms
    by (simp add: perform_closed [OF closed] perform_all_closed [OF closed])
qed

theorem closed_is_terminal_witness:
  "fst (logout (answering \<lparr>status_code = 204, reason = ''No Content'', resp_text = [],
                            resp_headers = headers_of [], decoded = None\<rparr>)
          \<lparr>remedy_base_url = ''http://h'', auth_token = Some ''AR-JWT t''\<rparr> fresh) = Inr ()
   \<and> perform_all (answering \<lparr>status_code = 204, reason = ''No Content'', resp_text = [],
                               resp_headers = headers_of [], decoded = None\<rparr>)
      [GetSchema ''F'', Logout]
      (fst (snd (logout (answering \<lparr>status_code = 204, reason = ''No Content'',
                                    resp_text = [], resp_headers = headers_of [],
                                    decoded = None\<rparr>)
                   \<lparr>remedy_base_url = ''http://h'', auth_token = Some ''AR-JWT t''\<rparr> fresh)))
      fresh
   = ([Inl (RemedyException ''Unable to get schema without a valid login session''),
       Inl (RemedyLogoutException ''No active login session; cannot logout.'')],
      \<lparr>remedy_base_url = ''http://h'', auth_token = None\<rparr>, fresh)"
proof -
  let ?r = "\<lparr>status_code = 204, reason = ''No Content'', resp_text = [],
             resp_headers = headers_of [], decoded = None\<rparr>"
  let ?s = "\<lparr>remedy_base_url = ''http://h'', auth_token = Some ''AR-JWT t''\<rparr>"
  have a: "truthy_str (auth_token ?s)" by (simp add: truthy_str_def)
  have b: "answering ?r (sent fresh) (logout_request ?s) = Inr ?r"
    by (simp add: answering_def)
  have c: "ok ?r" by (simp add: ok_def)
  note t = closed_is_terminal
             [where srv = "answering ?r" and s = "?s" and w = fresh and r = "?r"
                and ?srv2.0 = "answering ?r" and c = Logout and ?w2.0 = fresh
                and cs = "[GetSchema ''F'', Logout]", OF a b c]
  from t have l: "fst (logout (answering ?r) ?s fresh) = Inr ()"
    by (rule conjunct1)
  from t have p: "perform_all (answering ?r) [GetSchema ''F'', Logout]
                    (fst (snd (logout (answering ?r) ?s fresh))) fresh =
                  (map (\<lambda>c. Inl (no_session_error c)) [GetSchema ''F'', Logout],
                   ?s\<lparr>auth_token := None\<rparr>, fresh)"
    by blast
  show ?thesis
    using l p by (simp del: perform.simps perform_all.simps)
qed

section \<open>Failure of modify_entry\<close>

text \<open>
  C4. modify_entry on a session with a token, answered with 404 and the body
  \<^verbatim>\<open>{"error":"not found"}\<close>: the call fails with a RemedyException whose message is the
  fixed text "Failed to modify the incident", in which the body text does not occur;
  the body text is only written to the log, at level ERROR. Against the same response
  create_entry, query_form and get_schema fail with a RemedyException whose message
  ends with the body text.
\<close>

theorem modify_entry_404_omits_body:
  \<open>fst (modify_entry
          (answering \<lparr>status_code = 404, reason = ''Not Found'',
                      resp_text = ''{"error":"not found"}'',
                      resp_headers = headers_of [], decoded = None\<rparr>)
          ''HPD:Help Desk'' [(''Status'', JStr ''Closed'')] ''INC000001''
          \<lparr>remedy_base_url = ''http://h'', auth_token = Some ''AR-JWT tok123''\<rparr> fresh)
     = Inl (RemedyException ''Failed to modify the incident'')
   \<and> \<not> sublist ''{"error":"not found"}'' ''Failed to modify the incident''
   \<and> last (logged (snd (snd (modify_entry
          (answering \<lparr>status_code = 404, reason = ''Not Found'',
                      resp_text = ''{"error":"not found"}'',
                      resp_headers = headers_of [], decoded = None\<rparr>)
          ''HPD:Help Desk'' [(''Status'', JStr ''Closed'')] ''INC000001''
          \<lparr>remedy_base_url = ''http://h'', auth_token = Some ''AR-JWT tok123''\<rparr> fresh))))
     = (ERROR, Str ''Error modifying incident: {"error":"not found"}'')
   \<and> fst (create_entry
          (answering \<lparr>status_code = 404, reason = ''Not Found'',
                      resp_text = ''{"error":"not found"}'',
                      resp_headers = headers_of [], decoded = None\<rparr>)
          ''HPD:Help Desk'' [(''Status'', JStr ''Closed'')] None
          \<lparr>remedy_base_url = ''http://h'', auth_token = Some ''AR-JWT tok123''\<rparr> fresh)
     = Inl (RemedyException ''Failed to create entry: {"error":"not found"}'')
   \<and> fst (query_form
          (answering \<lparr>status_code = 404, reason = ''Not Found'',
                      resp_text = ''{"error":"not found"}'',
                      resp_headers = headers_of [], decoded = None\<rparr>)
          ''HPD:Help Desk'' None None None
          \<lparr>remedy_base_url = ''http://h'', auth_token = Some ''AR-JWT tok123''\<rparr> fresh)
     = Inl (RemedyException ''Error getting entry: {"error":"not found"}'')
   \<and> fst (get_schema
          (answering \<lparr>status_code = 404, reason = ''Not Found'',
                      resp_text = ''{"error":"not found"}'',
                      resp_headers = headers_of [], decoded = None\<rparr>)
          ''HPD:Help Desk''
          \<lparr>remedy_base_url = ''http://h'', auth_token = Some ''AR-JWT tok123''\<rparr> fresh)
     = Inl (RemedyException ''Error getting form schema: {"error":"not found"}'')\<close>
  by (simp add: modify_entry_def create_entry_def query_form_def get_schema_def
        answering_def truthy_str_def send_def ok_def Let_def sublist_Cons_right)

section \<open>Leaving a with block on an exception\<close>

text \<open>
  A block that raises while the server refuses the logout with 500: what leaves the
  \<^verbatim>\<open>with\<close> statement is the logout's exception, not the block's, and \<^verbatim>\<open>__exit__\<close> itself
  ends with that exception instead of returning None.
\<close>

theorem exit_logout_failure_counterexample:
  "fst (with_session
          (scripted [Inr \<lparr>status_code = 200, reason = ''OK'', resp_text = ''tok123'',
                          resp_headers = headers_of [], decoded = None\<rparr>,
                     Inr \<lparr>status_code = 500, reason = ''Server Error'', resp_text = ''down'',
                          resp_headers = headers_of [], decoded = None\<rparr>])
          ''http://h'' ''u'' ''p'' (raising_block ''boom'') fresh)
     = Inl (RemedyLogoutException
              (''Failed to log out of Helix ITSM server: (500) down'' @ [CHR 0x22]))
   \<and> fst (exit_session
          (answering \<lparr>status_code = 500, reason = ''Server Error'', resp_text = ''down'',
                      resp_headers = headers_of [], decoded = None\<rparr>)
          (Some (CallerError ''boom''))
          \<lparr>remedy_base_url = ''http://h'', auth_token = Some ''AR-JWT tok123''\<rparr> fresh)
     = Inl (RemedyLogoutException
              (''Failed to log out of Helix ITSM server: (500) down'' @ [CHR 0x22]))"
  by (simp add: with_session_def RemedySession_init_def exit_session_def logout_def
        raising_block_def scripted_def answering_def fresh_def send_def log_def ok_def
        truthy_str_def Let_def str_int_def str_nat.simps digit_def)

text \<open>
  C5, amended. When the block of a \<^verbatim>\<open>with\<close> statement raises and the session still holds
  its token, the cleanup attempts logout: the logout request is the one request sent
  after the block. If that logout succeeds, \<^verbatim>\<open>__exit__\<close> returns None and the block's
  exception is the one that leaves the statement. If the logout fails, its exception
  is raised by \<^verbatim>\<open>__exit__\<close> and is the one that leaves the statement: it is not discarded.
\<close>

theorem exit_with_error_in_flight:
  assumes "RemedySession_init srv api_url username password w0 = (Inr s, w1)"
      and "block s w1 = (Inl e, s2, w2)"
      and "truthy_str (auth_token s2)"
  shows "sent (snd (with_session srv api_url username password block w0)) =
           sent w2 @ [logout_request s2]
       \<and> fst (exit_session srv (Some e) s2 w2) =
           (case fst (logout srv s2 w2) of Inl e2 \<Rightarrow> Inl e2 | Inr u \<Rightarrow> Inr ())
       \<and> fst (with_session srv api_url username password block w0) =
           (case fst (logout srv s2 w2) of Inl e2 \<Rightarrow> Inl e2 | Inr u \<Rightarrow> Inl e)"
proof -
  obtain r3 s3 w3 where x: "exit_session srv (Some e) s2 w2 = (r3, s3, w3)"
    by (cases "exit_session srv (Some e) s2 w2") auto
  from exit_session_held [OF assms(3), of srv "Some e" w2] x
  have r3: "r3 = (case fst (logout srv s2 w2) of Inl e2 \<Rightarrow> Inl e2 | Inr u \<Rightarrow> Inr ())"
    and w3: "sent w3 = sent w2 @ [logout_request s2]" by simp_all
  from assms(1,2) x have
    "with_session srv api_url username password block w0 =
       (case r3 of Inl e2 \<Rightarrow> (Inl e2, w3) | Inr u \<Rightarrow> (Inl e, w3))"
    by (simp add: with_session_def split: sum.splits)
  with r3 w3 x show ?thesis by (simp split: sum.splits)
qed

theorem exit_with_error_in_flight_witness:
  "fst (with_session
          (scripted [Inr \<lparr>status_code = 200, reason = ''OK'', resp_text = ''tok123'',
                          resp_headers = headers_of [], decoded = None\<rparr>,
                     Inr \<lparr>status_code = 204, reason = ''No Content'', resp_text = [],
                          resp_headers = headers_of [], decoded = None\<rparr>])
          ''http://h'' ''u'' ''p'' (raising_block ''boom'') fresh)
     = Inl (CallerError ''boom'')"
proof -
  let ?r1 = "\<lparr>status_code = 200, reason = ''OK'', resp_text = ''tok123'',
              resp_headers = headers_of [], decoded = None\<rparr>"
  let ?r2 = "\<lparr>status_code = 204, reason = ''No Content'', resp_text = [],
              resp_headers = headers_of [], decoded = None\<rparr>"
  let ?srv = "scripted [Inr ?r1, Inr ?r2]"
  let ?s = "\<lparr>remedy_base_url = ''http://h'', auth_token = Some ''AR-JWT tok123''\<rparr>"
  let ?w1 = "snd (RemedySession_init ?srv ''http://h'' ''u'' ''p'' fresh)"
  have a: "RemedySession_init ?srv ''http://h'' ''u'' ''p'' fresh = (Inr ?s, ?w1)"
    by (simp add: RemedySession_init_def scripted_def fresh_def send_def log_def ok_def Let_def)
  have b: "raising_block ''boom'' ?s ?w1 = (Inl (CallerError ''boom''), ?s, ?w1)"
    by (simp add: raising_block_def)
  have c: "truthy_str (auth_token ?s)" by (simp add: truthy_str_def)
  have d: "fst (logout ?srv ?s ?w1) = Inr ()"
    by (simp add: RemedySession_init_def logout_def scripted_def fresh_def send_def log_def
          ok_def truthy_str_def Let_def)
  show ?thesis
    using exit_with_error_in_flight
            [where srv = "?srv" and api_url = "''http://h''" and username = "''u''"
               and password = "''p''" and ?w0.0 = fresh and s = "?s" and ?w1.0 = "?w1"
               and block = "raising_block ''boom''" and e = "CallerError ''boom''"
               and ?s2.0 = "?s" and ?w2.0 = "?w1"] a b c d
    by simp
qed

section \<open>Query parameters\<close>

text \<open>
  C6. query_form called with the limit 0 is the same computation as query_form called
  with no limit: same result, same session, same world, so the same request (URL,
  headers, parameters). In general the request carries the parameter limit exactly when
  the limit is given and is not 0, and then with that value.
\<close>

theorem limit_zero_is_no_limit:
  "query_form srv form query flds (Some 0) s w = query_form srv form query flds None s w
   \<and> query_request s form query flds (Some 0) = query_request s form query flds None
   \<and> param (query_request s form query flds limit) ''limit'' =
       (case limit of None \<Rightarrow> None | Some i \<Rightarrow> if i = 0 then None else Some (PInt i))"
  by (simp add: query_form_def query_request_def query_params_def param_def truthy_int_def
        split: option.splits)

theorem limit_zero_is_no_limit_witness:
  "sent (snd (snd (query_form (answering \<lparr>status_code = 200, reason = ''OK'', resp_text = ''{}'',
                      resp_headers = headers_of [], decoded = Some (JObj [])\<rparr>)
          ''F'' (Some ''x=1'') None (Some 0)
          \<lparr>remedy_base_url = ''http://h'', auth_token = Some ''AR-JWT t''\<rparr> fresh)))
   = [\<lparr>rq_method = GET, rq_url = ''http://h/arsys/v1.0/entry/F'', rq_data = None,
       rq_json = None, rq_headers = Some [(''Authorization'', ''AR-JWT t'')],
       rq_params = Some [(''q'', PStr ''x=1'')], rq_timeout = 60\<rparr>]
   \<and> param (query_request \<lparr>remedy_base_url = ''http://h'', auth_token = Some ''AR-JWT t''\<rparr>
              ''F'' None None (Some 5)) ''limit'' = Some (PInt 5)"
proof -
  let ?r = "\<lparr>status_code = 200, reason = ''OK'', resp_text = ''{}'',
             resp_headers = headers_of [], decoded = Some (JObj [])\<rparr>"
  let ?s = "\<lparr>remedy_base_url = ''http://h'', auth_token = Some ''AR-JWT t''\<rparr>"
  have "sent (snd (snd (query_form (answering ?r) ''F'' (Some ''x=1'') None None ?s fresh)))
        = [\<lparr>rq_method = GET, rq_url = ''http://h/arsys/v1.0/entry/F'', rq_data = None,
            rq_json = None, rq_headers = Some [(''Authorization'', ''AR-JWT t'')],
            rq_params = Some [(''q'', PStr ''x=1'')], rq_timeout = 60\<rparr>]"
    by (simp add: query_form_def query_request_def query_params_def answering_def fresh_def
          send_def log_def ok_def resp_json_def truthy_str_def truthy_int_def truthy_list_def
          ENTRY_PATH_def REST_TIMEOUT_def Let_def)
  then show ?thesis
    using limit_zero_is_no_limit [of "answering ?r" "''F''" "Some ''x=1''" None ?s fresh "Some 5"]
          limit_zero_is_no_limit [of "answering ?r" "''F''" None None ?s fresh "Some 5"]
    by simp
qed

text \<open>
  C7. On a session with a token, query_form and create_entry each send one request, and
  that request carries the parameter fields exactly when the field list is given and
  not empty; its value is then "values(" followed by the names joined with commas, in
  the order given, followed by ")". With no list or an empty list the request has no
  such parameter.
\<close>

theorem fields_parameter:
  assumes "truthy_str (auth_token s)"
  shows "sent (snd (snd (query_form srv form query flds limit s w))) =
           sent w @ [query_request s form query flds limit]
       \<and> param (query_request s form query flds limit) ''fields'' =
           (case flds of None \<Rightarrow> None
            | Some fs \<Rightarrow> if fs = [] then None
                         else Some (PStr (''values('' @ join '','' fs @ '')'')))
       \<and> sent (snd (snd (create_entry srv form fv flds s w))) =
           sent w @ [create_request s form fv flds]
       \<and> param (create_request s form fv flds) ''fields'' =
           (case flds of None \<Rightarrow> None
            | Some fs \<Rightarrow> if fs = [] then None
                         else Some (PStr (''values('' @ join '','' fs @ '')'')))"
  using assms
  by (simp add: query_form_sends create_entry_sends query_request_def create_request_def
        query_params_def create_params_def param_def values_of_def truthy_list_def
        split: option.splits)

theorem fields_parameter_witness:
  "param (query_request \<lparr>remedy_base_url = ''http://h'', auth_token = Some ''AR-JWT t''\<rparr>
            ''F'' None (Some [''Status'', ''Priority'']) None) ''fields''
     = Some (PStr ''values(Status,Priority)'')
   \<and> param (create_request \<lparr>remedy_base_url = ''http://h'', auth_token = Some ''AR-JWT t''\<rparr>
            ''F'' [] (Some [''Status'', ''Priority''])) ''fields''
     = Some (PStr ''values(Status,Priority)'')
   \<and> param (query_request \<lparr>remedy_base_url = ''http://h'', auth_token = Some ''AR-JWT t''\<rparr>
            ''F'' None (Some []) None) ''fields'' = None"
proof -
  let ?s = "\<lparr>remedy_base_url = ''http://h'', auth_token = Some ''AR-JWT t''\<rparr>"
  have a: "truthy_str (auth_token ?s)" by (simp add: truthy_str_def)
  show ?thesis
    using fields_parameter [OF a, of "failing Timeout" "''F''" None "Some [''Status'', ''Priority'']"
                              None fresh "[]"]
          fields_parameter [OF a, of "failing Timeout" "''F''" None "Some []" None fresh "[]"]
    by simp
qed

section \<open>Result of create_entry\<close>

text \<open>
  create_entry answered with 201, a Location header and an empty body: decoding the
  body raises, so the call ends with the decoding error and returns no pair.
\<close>

theorem create_entry_empty_body_counterexample:
  "fst (create_entry
          (answering \<lparr>status_code = 201, reason = ''Created'', resp_text = [],
                      resp_headers = headers_of [(''Location'', ''http://h/arsys/v1.0/entry/F/1'')],
                      decoded = None\<rparr>)
          ''F'' [(''Status'', JStr ''New'')] None
          \<lparr>remedy_base_url = ''http://h'', auth_token = Some ''AR-JWT t''\<rparr> fresh)
     = Inl JSONDecodeError"
  by (simp add: create_entry_def answering_def send_def ok_def resp_json_def truthy_str_def
        Let_def)

text \<open>
  C8, amended. On every 2xx response, create_entry on a session with a token returns the
  pair (location, body) when the body text is not empty and is a JSON document:
  location is the Location header of the response when there is one and the empty
  string when there is none, body is the structured value the body text stands for.
  When the body text is empty, or is no JSON document, the call ends with the decoding
  error instead.
\<close>

theorem create_entry_on_2xx:
  assumes "truthy_str (auth_token s)"
      and "srv (sent w) (create_request s form fv flds) = Inr r"
      and "200 \<le> status_code r" and "status_code r < 300"
  shows "fst (create_entry srv form fv flds s w) =
           (if resp_text r = [] then Inl JSONDecodeError
            else case decoded r of
                   None \<Rightarrow> Inl JSONDecodeError
                 | Some body \<Rightarrow>
                     Inr (case resp_headers r ''Location'' of None \<Rightarrow> [] | Some l \<Rightarrow> l,
                          body))"
  using assms
  by (simp add: create_entry_def send_def ok_def resp_json_def Let_def split: option.splits)

theorem create_entry_on_2xx_witness:
  "fst (create_entry
          (answering \<lparr>status_code = 201, reason = ''Created'', resp_text = ''{}'',
                      resp_headers = headers_of [(''Location'', ''http://h/e/1'')],
                      decoded = Some (JObj [])\<rparr>)
          ''F'' [] None
          \<lparr>remedy_base_url = ''http://h'', auth_token = Some ''AR-JWT t''\<rparr> fresh)
     = Inr (''http://h/e/1'', JObj [])
   \<and> fst (create_entry
          (answering \<lparr>status_code = 201, reason = ''Created'', resp_text = ''{}'',
                      resp_headers = headers_of [], decoded = Some (JObj [])\<rparr>)
          ''F'' [] None
          \<lparr>remedy_base_url = ''http://h'', auth_token = Some ''AR-JWT t''\<rparr> fresh)
     = Inr ([], JObj [])"
proof -
  let ?r = "\<lparr>status_code = 201, reason = ''Created'', resp_text = ''{}'',
             resp_headers = headers_of [(''Location'', ''http://h/e/1'')],
             decoded = Some (JObj [])\<rparr>"
  let ?q = "\<lparr>status_code = 201, reason = ''Created'', resp_text = ''{}'',
             resp_headers = headers_of [], decoded = Some (JObj [])\<rparr>"
  let ?s = "\<lparr>remedy_base_url = ''http://h'', auth_token = Some ''AR-JWT t''\<rparr>"
  have a: "truthy_str (auth_token ?s)" by (simp add: truthy_str_def)
  have b: "answering ?r (sent fresh) (create_request ?s ''F'' [] None) = Inr ?r"
    and b': "answering ?q (sent fresh) (create_request ?s ''F'' [] None) = Inr ?q"
    by (simp_all add: answering_def)
  show ?thesis
    using create_entry_on_2xx [where srv = "answering ?r" and s = "?s" and w = fresh
                                 and form = "''F''" and fv = "[]" and flds = None and r = "?r"]
          create_entry_on_2xx [where srv = "answering ?q" and s = "?s" and w = fresh
                                 and form = "''F''" and fv = "[]" and flds = None and r = "?q"]
          a b b'
    by (simp add: headers_of_def)
qed

section \<open>Transport failures\<close>

text \<open>
  create_entry when the request times out: the call ends with the HTTP library's own
  exception, which is not a RemedyException.
\<close>

theorem transport_failure_counterexample:
  "fst (create_entry (failing Timeout) ''F'' [] None
          \<lparr>remedy_base_url = ''http://h'', auth_token = Some ''AR-JWT t''\<rparr> fresh)
     = Inl (RequestException Timeout)
   \<and> \<not> is_RemedyException (RequestException Timeout)"
  by (simp add: create_entry_def failing_def send_def truthy_str_def Let_def)

text \<open>
  C9, amended. For the constructor, for logout and for each of the four data operations
  (these on a session with a token): when the transport fails on the request of the
  call, the call ends with the HTTP library's exception for that failure, unchanged and
  unwrapped, and so with no RemedyException; when the request is answered with a
  response that is not ok (status 400 to 599), the call ends with a RemedyException.
  The caller tells the two apart by the class of the exception.
\<close>

theorem transport_failure_propagates:
  assumes "truthy_str (auth_token s)"
  shows "(srv (sent w) (login_request api_url username password) = Inl t \<longrightarrow>
            fst (RemedySession_init srv api_url username password w) = Inl (RequestException t)
            \<and> \<not> fails_with is_RemedyException
                  (fst (RemedySession_init srv api_url username password w)))
       \<and> (srv (sent w) (login_request api_url username password) = Inr r \<and> \<not> ok r \<longrightarrow>
            fails_with is_RemedyException
              (fst (RemedySession_init srv api_url username password w)))
       \<and> (srv (sent w) (logout_request s) = Inl t \<longrightarrow>
            fst (logout srv s w) = Inl (RequestException t)
            \<and> \<not> fails_with is_RemedyException (fst (logout srv s w)))
       \<and> (srv (sent w) (logout_request s) = Inr r \<and> \<not> ok r \<longrightarrow>
            fails_with is_RemedyException (fst (logout srv s w)))
       \<and> (srv (sent w) (create_request s form fv flds) = Inl t \<longrightarrow>
            fst (create_entry srv form fv flds s w) = Inl (RequestException t)
            \<and> \<not> fails_with is_RemedyException (fst (create_entry srv form fv flds s w)))
       \<and> (srv (sent w) (create_request s form fv flds) = Inr r \<and> \<not> ok r \<longrightarrow>
            fails_with is_RemedyException (fst (create_entry srv form fv flds s w)))
       \<and> (srv (sent w) (modify_request s form fv entry_id) = Inl t \<longrightarrow>
            fst (modify_entry srv form fv entry_id s w) = Inl (RequestException t)
            \<and> \<not> fails_with is_RemedyException (fst (modify_entry srv form fv entry_id s w)))
       \<and> (srv (sent w) (modify_request s form fv entry_id) = Inr r \<and> \<not> ok r \<longrightarrow>
            fails_with is_RemedyException (fst (modify_entry srv form fv entry_id s w)))
       \<and> (srv (sent w) (query_request s form query flds limit) = Inl t \<longrightarrow>
            fst (query_form srv form query flds limit s w) = Inl (RequestException t)
            \<and> \<not> fails_with is_RemedyException
                  (fst (query_form srv form query flds limit s w)))
       \<and> (srv (sent w) (query_request s form query flds limit) = Inr r \<and> \<not> ok r \<longrightarrow>
            fails_with is_RemedyException (fst (query_form srv form query flds limit s w)))
       \<and> (srv (sent w) (schema_request s form) = Inl t \<longrightarrow>
            fst (get_schema srv form s w) = Inl (RequestException t)
            \<and> \<not> fails_with is_RemedyException (fst (get_schema srv form s w)))
       \<and> (srv (sent w) (schema_request s form) = Inr r \<and> \<not> ok r \<longrightarrow>
            fails_with is_RemedyException (fst (get_schema srv form s w)))"
  using assms
  by (simp add: transport_failures login_error_response logout_error_response
        create_entry_error_response modify_entry_error_response query_form_error_response
        get_schema_error_response fails_with_def)

theorem transport_failure_propagates_witness:
  "fst (RemedySession_init (failing DNSFailure) ''http://h'' ''u'' ''p'' fresh)
     = Inl (RequestException DNSFailure)
   \<and> fst (logout (failing DNSFailure)
            \<lparr>remedy_base_url = ''http://h'', auth_token = Some ''AR-JWT t''\<rparr> fresh)
     = Inl (RequestException DNSFailure)
   \<and> fst (get_schema (failing DNSFailure) ''F''
            \<lparr>remedy_base_url = ''http://h'', auth_token = Some ''AR-JWT t''\<rparr> fresh)
     = Inl (RequestException DNSFailure)
   \<and> \<not> fails_with is_RemedyException
         (fst (modify_entry (failing DNSFailure) ''F'' [] ''E1''
                 \<lparr>remedy_base_url = ''http://h'', auth_token = Some ''AR-JWT t''\<rparr> fresh))
   \<and> fails_with is_RemedyException
         (fst (modify_entry
                 (answering \<lparr>status_code = 503, reason = ''Unavailable'', resp_text = ''down'',
                             resp_headers = headers_of [], decoded = None\<rparr>)
                 ''F'' [] ''E1''
                 \<lparr>remedy_base_url = ''http://h'', auth_token = Some ''AR-JWT t''\<rparr> fresh))
   \<and> fails_with is_RemedyException
         (fst (query_form
                 (answering \<lparr>status_code = 503, reason = ''Unavailable'', resp_text = ''down'',
                             resp_headers = headers_of [], decoded = None\<rparr>)
                 ''F'' None None None
                 \<lparr>remedy_base_url = ''http://h'', auth_token = Some ''AR-JWT t''\<rparr> fresh))"
proof -
  let ?s = "\<lparr>remedy_base_url = ''http://h'', auth_token = Some ''AR-JWT t''\<rparr>"
  let ?r = "\<lparr>status_code = 503, reason = ''Unavailable'', resp_text = ''down'',
             resp_headers = headers_of [], decoded = None\<rparr>"
  have a: "truthy_str (auth_token ?s)" by (simp add: truthy_str_def)
  have b: "\<not> ok ?r" by (simp add: ok_def)
  have f: "failing DNSFailure (sent fresh) rq = Inl DNSFailure" for rq
    by (simp add: failing_def)
  have g: "answering ?r (sent fresh) rq = Inr ?r" for rq
    by (simp add: answering_def)
  note t1 = transport_failure_propagates
              [OF a, where srv = "failing DNSFailure" and w = fresh
                 and api_url = "''http://h''" and username = "''u''"
                 and password = "''p''" and t = DNSFailure and form = "''F''"
                 and fv = "[]" and flds = None and entry_id = "''E1''"
                 and query = None and limit = None and r = "?r"]
  note t2 = transport_failure_propagates
              [OF a, where srv = "answering ?r" and w = fresh
                 and api_url = "''http://h''" and username = "''u''"
                 and password = "''p''" and t = DNSFailure and form = "''F''"
                 and fv = "[]" and flds = None and entry_id = "''E1''"
                 and query = None and limit = None and r = "?r"]
  note c1 = t1 [THEN conjunct1, THEN mp, OF f, THEN conjunct1]
  note c2 = t1 [THEN conjunct2, THEN conjunct2, THEN conjunct1, THEN mp, OF f, THEN conjunct1]
  note c3 = t1 [THEN conjunct2, THEN conjunct2, THEN conjunct2, THEN conjunct2, THEN conjunct2, THEN conjunct2, THEN conjunct2, THEN conjunct2, THEN conjunct2, THEN conjunct2, THEN conjunct1, THEN mp, OF f, THEN conjunct1]
  note c4 = t1 [THEN conjunct2, THEN conjunct2, THEN conjunct2, THEN conjunct2, THEN conjunct2, THEN conjunct2, THEN conjunct1, THEN mp, OF f, THEN conjunct2]
  note c5 = t2 [THEN conjunct2, THEN conjunct2, THEN conjunct2, THEN conjunct2, THEN conjunct2, THEN conjunct2, THEN conjunct2, THEN conjunct1, THEN mp, OF conjI [OF g b]]
  note c6 = t2 [THEN conjunct2, THEN conjunct2, THEN conjunct2, THEN conjunct2, THEN conjunct2, THEN conjunct2, THEN conjunct2, THEN conjunct2, THEN conjunct2, THEN conjunct1, THEN mp, OF conjI [OF g b]]
  show ?thesis
    by (intro conjI c1 c2 c3 c4 c5 c6)
qed

section \<open>What changes the session\<close>

text \<open>
  A logout answered with 304, a response that is not 2xx: the call returns normally and
  the token of the session is cleared.
\<close>

theorem logout_304_counterexample:
  "fst (logout (answering \<lparr>status_code = 304, reason = ''Not Modified'', resp_text = [],
                            resp_headers = headers_of [], decoded = None\<rparr>)
          \<lparr>remedy_base_url = ''http://h'', auth_token = Some ''AR-JWT t''\<rparr> fresh) = Inr ()
   \<and> fst (snd (logout (answering \<lparr>status_code = 304, reason = ''Not Modified'',
                                  resp_text = [], resp_headers = headers_of [],
                                  decoded = None\<rparr>)
          \<lparr>remedy_base_url = ''http://h'', auth_token = Some ''AR-JWT t''\<rparr> fresh))
     = \<lparr>remedy_base_url = ''http://h'', auth_token = None\<rparr>"
  by (simp add: logout_def answering_def send_def ok_def truthy_str_def Let_def)

text \<open>
  C10, amended. The four data operations return the session they were given, whatever
  the outcome. logout returns the session it was given whenever it fails, and the
  session with the token set to None (same base URL) when it returns normally. A logout
  of a session with a token that is answered with a status code from 400 to 599 fails
  with RemedyLogoutException and leaves the session as it was, token and base URL; the
  session is still authenticated, and a second logout on it sends the logout request
  again and, when that one is answered with a response that is ok, returns normally
  and clears the token.
\<close>

theorem failed_logout_keeps_session:
  "fst (snd (create_entry srv form fv flds s w)) = s
   \<and> fst (snd (modify_entry srv form fv entry_id s w)) = s
   \<and> fst (snd (query_form srv form query flds limit s w)) = s
   \<and> fst (snd (get_schema srv form s w)) = s
   \<and> fst (snd (logout srv s w)) =
       (case fst (logout srv s w) of Inl e \<Rightarrow> s | Inr u \<Rightarrow> s\<lparr>auth_token := None\<rparr>)
   \<and> truthy_str (auth_token (fst (snd (logout srv s w)))) =
       (truthy_str (auth_token s) \<and> fst (logout srv s w) \<noteq> Inr ())
   \<and> (truthy_str (auth_token s) \<and> srv (sent w) (logout_request s) = Inr r
        \<and> 400 \<le> status_code r \<and> status_code r < 600 \<longrightarrow>
          fst (logout srv s w) =
            Inl (RemedyLogoutException
                   (''Failed to log out of Helix ITSM server: ('' @ str_int (status_code r)
                    @ '') '' @ resp_text r @ [CHR 0x22]))
        \<and> fst (snd (logout srv s w)) = s
        \<and> truthy_str (auth_token (fst (snd (logout srv s w))))
        \<and> sent (snd (snd (logout srv2 (fst (snd (logout srv s w))) w2))) =
            sent w2 @ [logout_request s]
        \<and> (srv2 (sent w2) (logout_request s) = Inr r2 \<and> ok r2 \<longrightarrow>
              fst (logout srv2 (fst (snd (logout srv s w))) w2) = Inr ()
            \<and> fst (snd (logout srv2 (fst (snd (logout srv s w))) w2)) =
                s\<lparr>auth_token := None\<rparr>))"
proof -
  have failed: "truthy_str (auth_token s) \<and> srv (sent w) (logout_request s) = Inr r
        \<and> 400 \<le> status_code r \<and> status_code r < 600 \<longrightarrow>
          fst (logout srv s w) =
            Inl (RemedyLogoutException
                   (''Failed to log out of Helix ITSM server: ('' @ str_int (status_code r)
                    @ '') '' @ resp_text r @ [CHR 0x22]))
        \<and> fst (snd (logout srv s w)) = s
        \<and> truthy_str (auth_token (fst (snd (logout srv s w))))
        \<and> sent (snd (snd (logout srv2 (fst (snd (logout srv s w))) w2))) =
            sent w2 @ [logout_request s]
        \<and> (srv2 (sent w2) (logout_request s) = Inr r2 \<and> ok r2 \<longrightarrow>
              fst (logout srv2 (fst (snd (logout srv s w))) w2) = Inr ()
            \<and> fst (snd (logout srv2 (fst (snd (logout srv s w))) w2)) =
                s\<lparr>auth_token := None\<rparr>)"
  proof (intro impI, elim conjE)
    assume held: "truthy_str (auth_token s)"
      and ans: "srv (sent w) (logout_request s) = Inr r"
      and lo: "400 \<le> status_code r" and hi: "status_code r < 600"
    from lo hi have bad: "\<not> ok r" by (simp add: ok_def)
    have e: "fst (logout srv s w) =
            Inl (RemedyLogoutException
                   (''Failed to log out of Helix ITSM server: ('' @ str_int (status_code r)
                    @ '') '' @ resp_text r @ [CHR 0x22]))"
      and e': "fst (snd (logout srv s w)) = s"
      using logout_error_response [where srv = srv and s = s and w = w and r = r]
            held ans bad
      by simp_all
    have again: "sent (snd (snd (logout srv2 s w2))) = sent w2 @ [logout_request s]"
      using held by (rule logout_sends)
    have retry: "srv2 (sent w2) (logout_request s) = Inr r2 \<and> ok r2 \<longrightarrow>
              fst (logout srv2 s w2) = Inr ()
            \<and> fst (snd (logout srv2 s w2)) = s\<lparr>auth_token := None\<rparr>"
      using logout_ok_response [where srv = srv2 and s = s and w = w2 and r = r2] held
      by simp
    show "fst (logout srv s w) =
            Inl (RemedyLogoutException
                   (''Failed to log out of Helix ITSM server: ('' @ str_int (status_code r)
                    @ '') '' @ resp_text r @ [CHR 0x22]))
        \<and> fst (snd (logout srv s w)) = s
        \<and> truthy_str (auth_token (fst (snd (logout srv s w))))
        \<and> sent (snd (snd (logout srv2 (fst (snd (logout srv s w))) w2))) =
            sent w2 @ [logout_request s]
        \<and> (srv2 (sent w2) (logout_request s) = Inr r2 \<and> ok r2 \<longrightarrow>
              fst (logout srv2 (fst (snd (logout srv s w))) w2) = Inr ()
            \<and> fst (snd (logout srv2 (fst (snd (logout srv s w))) w2)) =
                s\<lparr>auth_token := None\<rparr>)"
      unfolding e' using e held again retry by blast
  qed
  show ?thesis
    by (intro conjI data_ops_frame logout_frame logout_keeps_token_iff failed)
qed

theorem failed_logout_keeps_session_witness:
  "fst (snd (logout
          (scripted [Inr \<lparr>status_code = 500, reason = ''Server Error'', resp_text = ''down'',
                          resp_headers = headers_of [], decoded = None\<rparr>,
                     Inr \<lparr>status_code = 204, reason = ''No Content'', resp_text = [],
                          resp_headers = headers_of [], decoded = None\<rparr>])
          \<lparr>remedy_base_url = ''http://h'', auth_token = Some ''AR-JWT t''\<rparr> fresh))
     = \<lparr>remedy_base_url = ''http://h'', auth_token = Some ''AR-JWT t''\<rparr>
   \<and> fst (logout
          (scripted [Inr \<lparr>status_code = 500, reason = ''Server Error'', resp_text = ''down'',
                          resp_headers = headers_of [], decoded = None\<rparr>,
                     Inr \<lparr>status_code = 204, reason = ''No Content'', resp_text = [],
                          resp_headers = headers_of [], decoded = None\<rparr>])
          \<lparr>remedy_base_url = ''http://h'', auth_token = Some ''AR-JWT t''\<rparr> fresh)
     = Inl (RemedyLogoutException
              (''Failed to log out of Helix ITSM server: (500) down'' @ [CHR 0x22]))
   \<and> fst (perform_all
          (scripted [Inr \<lparr>status_code = 500, reason = ''Server Error'', resp_text = ''down'',
                          resp_headers = headers_of [], decoded = None\<rparr>,
                     Inr \<lparr>status_code = 204, reason = ''No Content'', resp_text = [],
                          resp_headers = headers_of [], decoded = None\<rparr>])
          [Logout, Logout]
          \<lparr>remedy_base_url = ''http://h'', auth_token = Some ''AR-JWT t''\<rparr> fresh)
     = [Inl (RemedyLogoutException
               (''Failed to log out of Helix ITSM server: (500) down'' @ [CHR 0x22])),
        Inr Nothing]"
proof -
  let ?r = "\<lparr>status_code = 500, reason = ''Server Error'', resp_text = ''down'',
             resp_headers = headers_of [], decoded = None\<rparr>"
  let ?r2 = "\<lparr>status_code = 204, reason = ''No Content'', resp_text = [],
              resp_headers = headers_of [], decoded = None\<rparr>"
  let ?srv = "scripted [Inr ?r, Inr ?r2]"
  let ?s = "\<lparr>remedy_base_url = ''http://h'', auth_token = Some ''AR-JWT t''\<rparr>"
  have a: "truthy_str (auth_token ?s)" by (simp add: truthy_str_def)
  have b: "?srv (sent fresh) (logout_request ?s) = Inr ?r"
    by (simp add: scripted_def fresh_def)
  have c: "400 \<le> status_code ?r" and d: "status_code ?r < 600" by simp_all
  have e: "str_int 500 = ''500''" by (simp add: str_int_def str_nat.simps digit_def)
  have f: "fst (perform_all ?srv [Logout, Logout] ?s fresh)
        = [Inl (RemedyLogoutException
                 (''Failed to log out of Helix ITSM server: (500) down'' @ [CHR 0x22])),
           Inr Nothing]"
    by (simp add: logout_def logout_request_def scripted_def fresh_def send_def log_def ok_def
          truthy_str_def Let_def str_int_def str_nat.simps digit_def)
  show ?thesis
    using failed_logout_keeps_session
            [where srv = "?srv" and s = "?s" and w = fresh and r = "?r" and form = "''F''"
               and fv = "[]" and flds = None and entry_id = "''E''" and query = None
               and limit = None and ?srv2.0 = "?srv" and ?w2.0 = fresh and ?r2.0 = "?r2"]
          a b c d e f
    by simp
qed

end
